theory Spec2Isabelle
  imports Complex_Main "HOL-Library.Word"
begin

section \<open>Python primitives used by the detectors\<close>

text \<open>
  The two detectors of \<^verbatim>\<open>docs/legacy/text_detector.py\<close> and
  \<^verbatim>\<open>docs/legacy/image_detector.py\<close> are embedded as HOL functions.
  Conventions of the embedding:
  \<^item> a Python \<^verbatim>\<open>str\<close> is a \<^typ>\<open>string\<close>, read as a sequence of code points below 256;
  \<^item> a Python \<^verbatim>\<open>float\<close> is a \<^typ>\<open>real\<close> (rounding and overflow of IEEE doubles are
    not modelled), a Python \<^verbatim>\<open>int\<close> that counts something is a \<^typ>\<open>nat\<close>;
  \<^item> a Python \<^verbatim>\<open>bytes\<close> object is a list of 8-bit words;
  \<^item> every operation that can raise returns \<open>error + 'a\<close>, with \<open>Inl\<close> the exception;
    a \<^verbatim>\<open>try/except Exception\<close> block is a case distinction on that value;
  \<^item> \<^verbatim>\<open>async\<close>/\<^verbatim>\<open>await\<close> are read sequentially;
  \<^item> the libraries that are not part of the repository (transformers, torch, OpenCV)
    are parameters of the detector records.
\<close>

datatype error =
    ZeroDivisionError
  | ValueError
  | KeyError
  | IndexError
  | AttributeError
  | LibraryError

definition pydiv :: "real \<Rightarrow> real \<Rightarrow> error + real" where
  \<comment> \<open>Python's true division \<^verbatim>\<open>a / b\<close>.\<close>
  "pydiv a b = (if b = 0 then Inl ZeroDivisionError else Inr (a / b))"

definition math_log :: "real \<Rightarrow> error + real" where
  \<comment> \<open>\<^verbatim>\<open>math.log(x)\<close> raises ValueError outside the positive reals.\<close>
  "math_log x = (if x \<le> 0 then Inl ValueError else Inr (ln x))"

subsection \<open>Character classes\<close>

definition code_point :: "char \<Rightarrow> nat" where
  "code_point c = of_char c"

definition is_word_char :: "char \<Rightarrow> bool" where
  \<comment> \<open>The class \<^verbatim>\<open>\w\<close> of \<^verbatim>\<open>re\<close> on \<^verbatim>\<open>str\<close>: alphanumeric code points and the underscore.\<close>
  "is_word_char c =
     (let n = code_point c in
        (48 \<le> n \<and> n \<le> 57) \<or> (65 \<le> n \<and> n \<le> 90) \<or> n = 95 \<or> (97 \<le> n \<and> n \<le> 122)
        \<or> n = 170 \<or> n = 178 \<or> n = 179 \<or> n = 181 \<or> n = 185 \<or> n = 186
        \<or> n = 188 \<or> n = 189 \<or> n = 190
        \<or> (192 \<le> n \<and> n \<le> 214) \<or> (216 \<le> n \<and> n \<le> 246) \<or> 248 \<le> n)"

definition is_space :: "char \<Rightarrow> bool" where
  \<comment> \<open>\<^verbatim>\<open>str.isspace\<close>, the characters removed by \<^verbatim>\<open>strip()\<close> and separating \<^verbatim>\<open>split()\<close>.\<close>
  "is_space c =
     (let n = code_point c in
        (9 \<le> n \<and> n \<le> 13) \<or> (28 \<le> n \<and> n \<le> 32) \<or> n = 133 \<or> n = 160)"

definition is_sentence_end :: "char \<Rightarrow> bool" where
  \<comment> \<open>The class \<^verbatim>\<open>[.!?]\<close>.\<close>
  "is_sentence_end c = (c = CHR ''.'' \<or> c = CHR ''!'' \<or> c = CHR ''?'')"

definition lower_char :: "char \<Rightarrow> char" where
  "lower_char c =
     (let n = code_point c in
        if (65 \<le> n \<and> n \<le> 90) \<or> (192 \<le> n \<and> n \<le> 214) \<or> (216 \<le> n \<and> n \<le> 222)
        then char_of (n + 32) else c)"

definition lower :: "string \<Rightarrow> string" where
  \<comment> \<open>\<^verbatim>\<open>text.lower()\<close>\<close>
  "lower text = map lower_char text"

subsection \<open>Regular expressions and string methods\<close>

fun runs :: "(char \<Rightarrow> bool) \<Rightarrow> string \<Rightarrow> string \<Rightarrow> string list" where
  \<comment> \<open>The maximal non-empty runs of characters satisfying \<open>P\<close>, left to right;
      \<open>cur\<close> is the run being read.\<close>
  "runs P cur [] = (if cur = [] then [] else [cur])"
| "runs P cur (c # cs) =
     (if P c then runs P (cur @ [c]) cs
      else if cur = [] then runs P [] cs
      else cur # runs P [] cs)"

definition findall_words :: "string \<Rightarrow> string list" where
  \<comment> \<open>\<^verbatim>\<open>re.findall(r'\b\w+\b', s)\<close>: the maximal runs of word characters.\<close>
  "findall_words s = runs is_word_char [] s"

definition split_ws :: "string \<Rightarrow> string list" where
  \<comment> \<open>\<^verbatim>\<open>s.split()\<close>: the maximal runs of non-space characters.\<close>
  "split_ws s = runs (\<lambda>c. \<not> is_space c) [] s"

definition strip :: "string \<Rightarrow> string" where
  \<comment> \<open>\<^verbatim>\<open>s.strip()\<close>\<close>
  "strip s = rev (dropWhile is_space (rev (dropWhile is_space s)))"

fun split_on_runs :: "string \<Rightarrow> bool \<Rightarrow> string \<Rightarrow> string list" where
  \<comment> \<open>Splitting at the maximal runs of sentence-end characters; \<open>cur\<close> is the piece being
      read and \<open>insep\<close> tells that the previous character belonged to a separator.\<close>
  "split_on_runs cur insep [] = [cur]"
| "split_on_runs cur insep (c # cs) =
     (if is_sentence_end c then
        (if insep then split_on_runs cur True cs else cur # split_on_runs [] True cs)
      else split_on_runs (cur @ [c]) False cs)"

definition re_split_sentences :: "string \<Rightarrow> string list" where
  \<comment> \<open>\<^verbatim>\<open>re.split(r'[.!?]+', s)\<close>\<close>
  "re_split_sentences s = split_on_runs [] False s"

fun join :: "string \<Rightarrow> string list \<Rightarrow> string" where
  \<comment> \<open>\<^verbatim>\<open>sep.join(xs)\<close>\<close>
  "join sep [] = []"
| "join sep [x] = x"
| "join sep (x # y # xs) = x @ sep @ join sep (y # xs)"

definition slice :: "'a list \<Rightarrow> nat \<Rightarrow> nat \<Rightarrow> 'a list" where
  \<comment> \<open>\<^verbatim>\<open>xs[i:j]\<close> for non-negative bounds.\<close>
  "slice xs i j = take (j - i) (drop i xs)"

definition len_set :: "'a list \<Rightarrow> nat" where
  \<comment> \<open>\<^verbatim>\<open>len(set(xs))\<close>\<close>
  "len_set xs = length (remdups xs)"

definition and_then :: "error + 'a \<Rightarrow> ('a \<Rightarrow> error + 'b) \<Rightarrow> error + 'b" where
  \<comment> \<open>Sequencing of two statements: an exception of the first skips the second.\<close>
  "and_then m f = (case m of Inl e \<Rightarrow> Inl e | Inr v \<Rightarrow> f v)"

definition np_mean :: "real list \<Rightarrow> real" where
  \<comment> \<open>\<^verbatim>\<open>np.mean(xs)\<close>; the detector calls it on lists of at least two numbers only.\<close>
  "np_mean xs = sum_list xs / real (length xs)"

definition np_std :: "real list \<Rightarrow> real" where
  \<comment> \<open>\<^verbatim>\<open>np.std(xs)\<close>, the population standard deviation.\<close>
  "np_std xs = sqrt (np_mean (map (\<lambda>x. (x - np_mean xs)\<^sup>2) xs))"

section \<open>The text detector\<close>

record writing_features =
  word_count :: nat
  sentence_count :: nat
  avg_sentence_length :: real
  unique_words :: nat
  vocabulary_diversity :: real
  avg_word_length :: real

datatype pyval =
    PStr string
  | PFloat real
  | PInt nat
  | PFeatures writing_features

record detection_result =
  ai_probability :: real
  confidence :: real
  analysis :: "(string \<times> pyval) list"

text \<open>
  The detector object. The language model is not part of the repository: running the
  tokenizer and the model on a text (lines 43 to 47) and reading
  \<^verbatim>\<open>float(probabilities[0][-1])\<close> are fields of the record, over a type \<open>'p\<close> of
  probability objects. Line 47 makes the probability object a tensor
  (\<^verbatim>\<open>torch.softmax\<close>), and a tensor has no attribute \<^verbatim>\<open>get\<close>: looking it up raises
  AttributeError.
\<close>

record 'p text_detector =
  transformers_available :: bool
  model_loaded :: bool
  run_model :: "string \<Rightarrow> error + 'p"
  last_token_prob :: "'p \<Rightarrow> error + real"

datatype 'p features_arg =
    FeaturesDict writing_features
  | Probabilities 'p

definition tokens :: "string \<Rightarrow> string list" where
  \<comment> \<open>\<^verbatim>\<open>re.findall(r'\b\w+\b', text.lower())\<close>\<close>
  "tokens text = findall_words (lower text)"

definition nonblank_sentences :: "string \<Rightarrow> string list" where
  \<comment> \<open>\<^verbatim>\<open>[s for s in re.split(r'[.!?]+', text.strip()) if s.strip()]\<close>\<close>
  "nonblank_sentences text = filter (\<lambda>s. strip s \<noteq> []) (re_split_sentences (strip text))"

definition extract_writing_features :: "string \<Rightarrow> error + writing_features" where
  "extract_writing_features text =
     (let sentences = re_split_sentences (strip text);
          words = tokens text;
          n_sentences = length (filter (\<lambda>s. strip s \<noteq> []) sentences)
      in and_then (pydiv (real (length words)) (real (max n_sentences 1))) (\<lambda>asl.
         and_then (pydiv (real (len_set words)) (real (max (length words) 1))) (\<lambda>vd.
         and_then (pydiv (real (sum_list (map length words))) (real (max (length words) 1))) (\<lambda>awl.
         Inr \<lparr> word_count = length words,
               sentence_count = n_sentences,
               avg_sentence_length = asl,
               unique_words = len_set words,
               vocabulary_diversity = vd,
               avg_word_length = awl \<rparr>))))"

definition bigrams :: "string list \<Rightarrow> string list" where
  \<comment> \<open>\<^verbatim>\<open>[' '.join(words[i:i+2]) for i in range(len(words)-1)]\<close>; the range is empty
      when there are no words.\<close>
  "bigrams words = map (\<lambda>i. join '' '' (slice words i (i + 2))) [0 ..< length words - 1]"

definition trigrams :: "string list \<Rightarrow> string list" where
  \<comment> \<open>\<^verbatim>\<open>[' '.join(words[i:i+3]) for i in range(len(words)-2)]\<close>\<close>
  "trigrams words = map (\<lambda>i. join '' '' (slice words i (i + 3))) [0 ..< length words - 2]"

definition analyze_repetition :: "string \<Rightarrow> error + real" where
  "analyze_repetition text =
     (let words = tokens text in
      if length words < 10 then Inr 0.5
      else
        let bigram_repetition = length (bigrams words) - len_set (bigrams words);
            trigram_repetition = length (trigrams words) - len_set (trigrams words)
        in and_then (pydiv (real (bigram_repetition + trigram_repetition))
                           (real (max (length words) 1)))
             (\<lambda>repetition_score. Inr (min 1.0 (repetition_score * 10))))"

definition analyze_vocabulary_diversity :: "string \<Rightarrow> error + real" where
  "analyze_vocabulary_diversity text =
     (let words = tokens text in
      if length words < 5 then Inr 0.5
      else and_then (pydiv (real (len_set words)) (real (length words)))
             (\<lambda>unique_ratio. Inr (1.0 - unique_ratio)))"

definition analyze_sentence_structure :: "string \<Rightarrow> error + real" where
  "analyze_sentence_structure text =
     (let sentences = map strip (nonblank_sentences text) in
      if length sentences < 2 then Inr 0.5
      else
        let lengths = map (\<lambda>s. real (length (split_ws s))) sentences;
            mean_length = np_mean lengths;
            std_length = np_std lengths;
            cv = (if mean_length > 0 then std_length / mean_length else 1.0)
        in Inr (max 0.0 (1.0 - cv)))"

definition count_bigram :: "(string \<rightharpoonup> nat) \<Rightarrow> string \<Rightarrow> (string \<rightharpoonup> nat)" where
  \<comment> \<open>\<^verbatim>\<open>bigram_freq[bigram] = bigram_freq.get(bigram, 0) + 1\<close>\<close>
  "count_bigram freq b = freq(b \<mapsto> (case freq b of None \<Rightarrow> 0 | Some c \<Rightarrow> c) + 1)"

fun sum_log_probs :: "(string \<rightharpoonup> nat) \<Rightarrow> nat \<Rightarrow> real \<Rightarrow> string list \<Rightarrow> error + real" where
  \<comment> \<open>The second loop of \<^verbatim>\<open>_calculate_perplexity\<close>; \<open>n\<close> is \<^verbatim>\<open>len(bigrams)\<close> and
      \<open>acc\<close> the running \<^verbatim>\<open>total_prob\<close>.\<close>
  "sum_log_probs freq n acc [] = Inr acc"
| "sum_log_probs freq n acc (b # bs) =
     (case freq b of
        None \<Rightarrow> Inl KeyError
      | Some c \<Rightarrow>
          and_then (pydiv (real c) (real n)) (\<lambda>prob.
          and_then (if prob > 0 then math_log prob else Inr (- 10)) (\<lambda>l.
          sum_log_probs freq n (acc + l) bs)))"

definition calculate_perplexity :: "string \<Rightarrow> error + real" where
  "calculate_perplexity text =
     (let words = tokens text in
      if length words < 10 then Inr 0.5
      else
        let bgs = bigrams words;
            bigram_freq = fold (\<lambda>b freq. count_bigram freq b) bgs Map.empty
        in and_then (sum_log_probs bigram_freq (length bgs) 0 bgs) (\<lambda>total_prob.
           and_then (pydiv total_prob (real (length bgs))) (\<lambda>avg_log_prob.
           let perplexity = exp (- avg_log_prob)
           in Inr (max 0.0 (min 1.0 (1.0 - perplexity / 100))))))"

definition features_get_word_count :: "'p features_arg \<Rightarrow> error + real" where
  \<comment> \<open>\<^verbatim>\<open>features.get("word_count", 0)\<close>: a dictionary lookup when the argument is the
      feature dictionary, AttributeError when it is a tensor.\<close>
  "features_get_word_count features =
     (case features of
        FeaturesDict f \<Rightarrow> Inr (real (word_count f))
      | Probabilities p \<Rightarrow> Inl AttributeError)"

definition calculate_confidence :: "'p text_detector \<Rightarrow> string \<Rightarrow> 'p features_arg \<Rightarrow> error + real" where
  "calculate_confidence self text features =
     and_then (features_get_word_count features) (\<lambda>wc.
       if wc < 10 then Inr 0.3
       else if wc < 50 then Inr 0.6
       else if wc < 200 then Inr 0.8
       else Inr 0.9)"

definition heuristic_detection :: "'p text_detector \<Rightarrow> string \<Rightarrow> error + detection_result" where
  "heuristic_detection self text =
     and_then (extract_writing_features text) (\<lambda>features.
     and_then (analyze_repetition text) (\<lambda>repetition_score.
     and_then (analyze_vocabulary_diversity text) (\<lambda>vocab_score.
     and_then (analyze_sentence_structure text) (\<lambda>structure_score.
     and_then (calculate_perplexity text) (\<lambda>perplexity_score.
     let ai_score = 0.0 + repetition_score * 0.3 + vocab_score * 0.2
                    + structure_score * 0.25 + perplexity_score * 0.25;
         total_weight = 0.0 + 0.3 + 0.2 + 0.25 + 0.25
     in and_then (pydiv ai_score total_weight) (\<lambda>q.
        and_then (calculate_confidence self text (FeaturesDict features)) (\<lambda>conf.
        Inr \<lparr> ai_probability = min 1.0 (max 0.0 q),
              confidence = conf,
              analysis = [(''method'', PStr ''heuristic''),
                          (''features'', PFeatures features),
                          (''repetition_score'', PFloat repetition_score),
                          (''vocab_score'', PFloat vocab_score),
                          (''structure_score'', PFloat structure_score),
                          (''perplexity'', PFloat perplexity_score)] \<rparr>)))))))"

definition calculate_ai_probability :: "'p text_detector \<Rightarrow> string \<Rightarrow> 'p \<Rightarrow> real" where
  "calculate_ai_probability self text probabilities =
     (case
        and_then (last_token_prob self probabilities) (\<lambda>base_prob.
        and_then (extract_writing_features text) (\<lambda>features.
        and_then (analyze_repetition text) (\<lambda>repetition_score.
        and_then (analyze_vocabulary_diversity text) (\<lambda>vocab_score.
        let heuristic_score = repetition_score * 0.4 + vocab_score * 0.3
                              + (1.0 - vocabulary_diversity features) * 0.3;
            final_prob = base_prob * 0.7 + heuristic_score * 0.3
        in Inr (min 1.0 (max 0.0 final_prob))))))
      of Inl e \<Rightarrow> 0.5 | Inr v \<Rightarrow> v)"

definition ml_detection :: "'p text_detector \<Rightarrow> string \<Rightarrow> error + detection_result" where
  "ml_detection self text =
     (case
        and_then (run_model self text) (\<lambda>probabilities.
        let ai_prob = calculate_ai_probability self text probabilities in
        and_then (calculate_confidence self text (Probabilities probabilities)) (\<lambda>conf.
        and_then (extract_writing_features text) (\<lambda>features.
        and_then (calculate_perplexity text) (\<lambda>perplexity.
        Inr \<lparr> ai_probability = ai_prob,
              confidence = conf,
              analysis = [(''method'', PStr ''ml_model''),
                          (''model'', PStr ''transformers''),
                          (''features'', PFeatures features),
                          (''perplexity'', PFloat perplexity)] \<rparr>))))
      of Inl e \<Rightarrow> heuristic_detection self text | Inr r \<Rightarrow> Inr r)"

definition detect :: "'p text_detector \<Rightarrow> string \<Rightarrow> error + detection_result" where
  "detect self text =
     (if transformers_available self \<and> model_loaded self then ml_detection self text
      else heuristic_detection self text)"

section \<open>The image detector\<close>

type_synonym bytes = "8 word list"

text \<open>
  The detector object. OpenCV and the array library are not part of the repository:
  decoding (\<^verbatim>\<open>cv2.imdecode\<close>, which returns \<^verbatim>\<open>None\<close> for bytes it cannot read), the
  shape of a decoded array and the array computations of the three pixel analyzers are
  fields of the record, over a type \<open>'img\<close> of decoded images.
\<close>

record 'img image_detector =
  opencv_available :: bool
  imdecode :: "bytes \<Rightarrow> error + 'img option"
  shape :: "'img \<Rightarrow> nat list"
  freq_ratio :: "'img \<Rightarrow> error + real"
  color_uniformity :: "'img \<Rightarrow> error + real"
  edge_density :: "'img \<Rightarrow> error + real"
  mean_local_variance :: "'img \<Rightarrow> error + real"

definition digit_char :: "nat \<Rightarrow> char" where
  "digit_char d = char_of (48 + d)"

function str_nat :: "nat \<Rightarrow> string" where
  \<comment> \<open>The decimal numeral an f-string prints for a non-negative integer.\<close>
  "str_nat n = (if n < 10 then [digit_char n] else str_nat (n div 10) @ [digit_char (n mod 10)])"
  by pat_completeness auto
termination
  by (relation "measure id") auto

definition list_get :: "'a list \<Rightarrow> nat \<Rightarrow> error + 'a" where
  \<comment> \<open>\<^verbatim>\<open>xs[i]\<close> for a non-negative index.\<close>
  "list_get xs i = (if i < length xs then Inr (xs ! i) else Inl IndexError)"

definition analyze_metadata :: "bytes \<Rightarrow> real" where
  "analyze_metadata image_data =
     (case
        (let size = length image_data in
         if size < 10000 then Inr 0.3
         else if size < 50000 then Inr 0.5
         else if size < 200000 then Inr 0.6
         else if size < 1000000 then Inr 0.7
         else Inr 0.8) :: error + real
      of Inl e \<Rightarrow> 0.5 | Inr v \<Rightarrow> v)"

definition fallback_result :: detection_result where
  "fallback_result =
     \<lparr> ai_probability = 0.5, confidence = 0.3, analysis = [(''method'', PStr ''fallback'')] \<rparr>"

definition basic_detection :: "bytes \<Rightarrow> error + detection_result" where
  "basic_detection image_data =
     (case
        (let size = length image_data;
             metadata_score = analyze_metadata image_data;
             ai_prob = min 0.8 (max 0.2 metadata_score);
             conf = 0.5
         in Inr \<lparr> ai_probability = ai_prob,
                 confidence = conf,
                 analysis = [(''method'', PStr ''basic''),
                             (''file_size'', PInt size),
                             (''metadata_score'', PFloat metadata_score)] \<rparr>) :: error + detection_result
      of Inl e \<Rightarrow> Inr fallback_result | Inr r \<Rightarrow> Inr r)"

definition frequency_domain_analysis :: "'img image_detector \<Rightarrow> 'img \<Rightarrow> real" where
  "frequency_domain_analysis self img =
     (case and_then (freq_ratio self img) (\<lambda>r. Inr (min 1.0 (r / 10.0)))
      of Inl e \<Rightarrow> 0.5 | Inr v \<Rightarrow> v)"

definition detect_ai_artifacts :: "'img image_detector \<Rightarrow> 'img \<Rightarrow> real" where
  "detect_ai_artifacts self img =
     (case
        and_then (color_uniformity self img) (\<lambda>cu.
        and_then (edge_density self img) (\<lambda>ed.
        let edge_consistency = 1.0 - ed;
            artifact_score = cu * 0.6 + edge_consistency * 0.4
        in Inr (max 0.0 (min 1.0 artifact_score))))
      of Inl e \<Rightarrow> 0.5 | Inr v \<Rightarrow> v)"

definition analyze_texture_patterns :: "'img image_detector \<Rightarrow> 'img \<Rightarrow> real" where
  "analyze_texture_patterns self img =
     (case
        and_then (mean_local_variance self img) (\<lambda>mv.
        let texture_uniformity = 1.0 - mv / 255.0
        in Inr (max 0.0 (min 1.0 texture_uniformity)))
      of Inl e \<Rightarrow> 0.5 | Inr v \<Rightarrow> v)"

definition image_confidence :: "'img image_detector \<Rightarrow> 'img option \<Rightarrow> error + real" where
  \<comment> \<open>\<^verbatim>\<open>ImageAIDetector._calculate_confidence\<close>; unpacking \<^verbatim>\<open>img.shape[:2]\<close> into two
      names raises ValueError when the shape has fewer than two entries.\<close>
  "image_confidence self img =
     (case img of
        None \<Rightarrow> Inr 0.3
      | Some i \<Rightarrow>
          if prod_list (shape self i) = 0 then Inr 0.3
          else (case take 2 (shape self i) of
                  [height, width] \<Rightarrow>
                    if height < 64 \<or> width < 64 then Inr 0.4
                    else if height < 256 \<or> width < 256 then Inr 0.6
                    else if height < 1024 \<or> width < 1024 then Inr 0.8
                    else Inr 0.9
                | _ \<Rightarrow> Inl ValueError))"

definition advanced_detection :: "'img image_detector \<Rightarrow> bytes \<Rightarrow> error + detection_result" where
  "advanced_detection self image_data =
     (case imdecode self image_data of
        Inl e \<Rightarrow> basic_detection image_data
      | Inr None \<Rightarrow> basic_detection image_data
      | Inr (Some img) \<Rightarrow>
          (case
             (let frequency_score = frequency_domain_analysis self img;
                  artifact_score = detect_ai_artifacts self img;
                  metadata_score = analyze_metadata image_data;
                  texture_score = analyze_texture_patterns self img;
                  ai_prob = frequency_score * 0.35 + artifact_score * 0.25
                            + metadata_score * 0.20 + texture_score * 0.20
              in and_then (image_confidence self (Some img)) (\<lambda>conf.
                 and_then (list_get (shape self img) 1) (\<lambda>w.
                 and_then (list_get (shape self img) 0) (\<lambda>h.
                 and_then (if length (shape self img) > 2 then list_get (shape self img) 2
                           else Inr 1) (\<lambda>channels.
                 Inr \<lparr> ai_probability = ai_prob,
                       confidence = conf,
                       analysis = [(''method'', PStr ''advanced_cv''),
                                   (''frequency_analysis'', PFloat frequency_score),
                                   (''artifact_detection'', PFloat artifact_score),
                                   (''metadata_analysis'', PFloat metadata_score),
                                   (''texture_analysis'', PFloat texture_score),
                                   (''image_size'', PStr (str_nat w @ ''x'' @ str_nat h)),
                                   (''channels'', PInt channels)] \<rparr>)))))
           of Inl e \<Rightarrow> basic_detection image_data | Inr r \<Rightarrow> Inr r))"

definition image_detect :: "'img image_detector \<Rightarrow> bytes \<Rightarrow> error + detection_result" where
  \<comment> \<open>\<^verbatim>\<open>ImageAIDetector.detect\<close>\<close>
  "image_detect self image_data =
     (if opencv_available self then advanced_detection self image_data
      else basic_detection image_data)"

definition method_of :: "detection_result \<Rightarrow> pyval option" where
  \<comment> \<open>\<^verbatim>\<open>result["analysis"].get("method")\<close>\<close>
  "method_of r = map_of (analysis r) ''method''"

section \<open>Concrete detector objects\<close>

definition undecodable_cv :: "unit image_detector" where
  \<comment> \<open>An image detector whose decoder reads no input: \<^verbatim>\<open>cv2.imdecode\<close> answers
      \<^verbatim>\<open>None\<close> on every byte sequence.\<close>
  "undecodable_cv =
     \<lparr> opencv_available = True,
       imdecode = (\<lambda>d. Inr None),
       shape = (\<lambda>i. []),
       freq_ratio = (\<lambda>i. Inl LibraryError),
       color_uniformity = (\<lambda>i. Inl LibraryError),
       edge_density = (\<lambda>i. Inl LibraryError),
       mean_local_variance = (\<lambda>i. Inl LibraryError) \<rparr>"

definition heuristic_only :: "unit text_detector" where
  \<comment> \<open>A text detector without the transformers library.\<close>
  "heuristic_only =
     \<lparr> transformers_available = False,
       model_loaded = False,
       run_model = (\<lambda>t. Inl LibraryError),
       last_token_prob = (\<lambda>p. Inl LibraryError) \<rparr>"

definition failing_model :: "unit text_detector" where
  \<comment> \<open>A text detector whose loaded model raises on every text.\<close>
  "failing_model =
     \<lparr> transformers_available = True,
       model_loaded = True,
       run_model = (\<lambda>t. Inl LibraryError),
       last_token_prob = (\<lambda>p. Inl LibraryError) \<rparr>"

definition loaded_model :: "unit text_detector" where
  \<comment> \<open>A text detector whose loaded model answers on every text, with a probability
      object whose last entry reads 0.5.\<close>
  "loaded_model =
     \<lparr> transformers_available = True,
       model_loaded = True,
       run_model = (\<lambda>t. Inr ()),
       last_token_prob = (\<lambda>p. Inr 0.5) \<rparr>"

section \<open>Concrete texts\<close>

definition repetitive_text :: string where
  \<comment> \<open>Fifty words in which the bigram \<open>a b\<close> occurs twenty times.\<close>
  "repetitive_text = ''a b a b a b a b a b a b a b a b a b a b a b a b a b a b a b a b a b a b a b a b c d e f g h i j k l''"

definition varied_text :: string where
  \<comment> \<open>Fifty different words.\<close>
  "varied_text = ''w0 w1 w2 w3 w4 w5 w6 w7 w8 w9 w10 w11 w12 w13 w14 w15 w16 w17 w18 w19 w20 w21 w22 w23 w24 w25 w26 w27 w28 w29 w30 w31 w32 w33 w34 w35 w36 w37 w38 w39 w40 w41 w42 w43 w44 w45 w46 w47 w48 w49''"

section \<open>The confidence steps as the specification words them\<close>

definition confidence_steps :: "nat \<Rightarrow> real" where
  \<comment> \<open>Section 4.1 of the specification: below 10 words 0.3, below 50 words 0.6, below
      200 words 0.8, otherwise 0.9.\<close>
  "confidence_steps wc =
     (if wc < 10 then 0.3 else if wc < 50 then 0.6 else if wc < 200 then 0.8 else 0.9)"

section \<open>Properties of the image detector\<close>

lemma analyze_metadata_cases:
  "analyze_metadata d = 0.3 \<or> analyze_metadata d = 0.5 \<or> analyze_metadata d = 0.6
   \<or> analyze_metadata d = 0.7 \<or> analyze_metadata d = 0.8"
  by (simp add: analyze_metadata_def Let_def)

lemma analyze_metadata_bounds: "0.3 \<le> analyze_metadata d \<and> analyze_metadata d \<le> 0.8"
  by (simp add: analyze_metadata_def Let_def)

lemma basic_detection_eq:
  "basic_detection d =
     Inr \<lparr> ai_probability = min 0.8 (max 0.2 (analyze_metadata d)),
           confidence = 0.5,
           analysis = [(''method'', PStr ''basic''),
                       (''file_size'', PInt (length d)),
                       (''metadata_score'', PFloat (analyze_metadata d))] \<rparr>"
  by (simp add: basic_detection_def Let_def)

text \<open>
  Claim C6. In the basic tier the metadata step always succeeds, the probability is the
  metadata score clamped to the interval from 0.2 to 0.8 and the confidence is 0.5; a
  payload of exactly 5000 bytes has metadata score 0.3, probability 0.3 and confidence 0.5.
\<close>

theorem basic_tier_probability:
  "\<exists>r. basic_detection d = Inr r
       \<and> ai_probability r = min 0.8 (max 0.2 (analyze_metadata d))
       \<and> confidence r = 0.5
       \<and> (length d = 5000 \<longrightarrow>
            analyze_metadata d = 0.3 \<and> ai_probability r = 0.3 \<and> confidence r = 0.5)"
  by (simp add: basic_detection_eq) (simp add: analyze_metadata_def)

theorem basic_tier_probability_witness:
  "length (replicate 5000 (0::8 word)) = 5000
   \<and> (\<exists>r. basic_detection (replicate 5000 0) = Inr r
            \<and> ai_probability r = 0.3 \<and> confidence r = 0.5)"
  using basic_tier_probability [of "replicate 5000 0"] by auto

text \<open>
  Claim C9. The metadata score is one of 0.3, 0.5, 0.6, 0.7 and 0.8, so the lower bound
  0.2 of the clamp of the basic tier changes nothing: the probability of the basic tier
  is the metadata score itself and is never 0.2.
\<close>

theorem lower_clamp_never_active:
  "analyze_metadata d \<in> {0.3, 0.5, 0.6, 0.7, 0.8}
   \<and> max 0.2 (analyze_metadata d) = analyze_metadata d
   \<and> (\<exists>r. basic_detection d = Inr r
            \<and> ai_probability r = analyze_metadata d \<and> ai_probability r \<noteq> 0.2)"
  using analyze_metadata_bounds [of d] analyze_metadata_cases [of d]
  by (simp add: basic_detection_eq)

theorem lower_clamp_never_active_witness:
  "\<exists>r. basic_detection (replicate 20000 0) = Inr r \<and> ai_probability r = 0.5"
  using lower_clamp_never_active [of "replicate 20000 0"]
  by (auto simp add: analyze_metadata_def Let_def)

text \<open>
  Claim C1, as stated, fails: bytes that the decoder cannot read are handed to the basic
  tier, which answers from the length of the input. One zero byte gives probability 0.3,
  confidence 0.5 and method \<open>basic\<close>, not the terminal fallback.
\<close>

theorem garbage_bytes_counterexample:
  "imdecode undecodable_cv [0] = Inr None
   \<and> image_detect undecodable_cv [0] =
       Inr \<lparr> ai_probability = 0.3, confidence = 0.5,
             analysis = [(''method'', PStr ''basic''), (''file_size'', PInt 1),
                         (''metadata_score'', PFloat 0.3)] \<rparr>
   \<and> image_detect undecodable_cv [0] \<noteq> Inr fallback_result"
  by (simp add: undecodable_cv_def image_detect_def advanced_detection_def basic_detection_eq
        analyze_metadata_def fallback_result_def)

text \<open>
  Claim C1, amended. For every byte sequence that the decoder does not turn into an image
  (it answers \<^verbatim>\<open>None\<close> or raises), whether or not OpenCV is available, \<^verbatim>\<open>detect\<close>
  returns the result of the basic tier: the clamped metadata score, confidence 0.5 and
  method \<open>basic\<close>.
\<close>

theorem undecodable_bytes_basic_tier:
  assumes "imdecode self d = Inr None \<or> (\<exists>e. imdecode self d = Inl e)"
  shows "image_detect self d =
           Inr \<lparr> ai_probability = min 0.8 (max 0.2 (analyze_metadata d)),
                 confidence = 0.5,
                 analysis = [(''method'', PStr ''basic''),
                             (''file_size'', PInt (length d)),
                             (''metadata_score'', PFloat (analyze_metadata d))] \<rparr>"
  using assms by (auto simp add: image_detect_def advanced_detection_def basic_detection_eq)

theorem undecodable_bytes_basic_tier_witness:
  "(imdecode undecodable_cv [1, 2, 3] = Inr None
      \<or> (\<exists>e. imdecode undecodable_cv [1, 2, 3] = Inl e))
   \<and> method_of (projr (image_detect undecodable_cv [1, 2, 3])) = Some (PStr ''basic'')"
  using undecodable_bytes_basic_tier [of undecodable_cv "[1, 2, 3]"]
  by (simp add: undecodable_cv_def method_of_def)

lemma image_detect_returns: "\<exists>r. image_detect self d = Inr r"
  by (auto simp add: image_detect_def advanced_detection_def basic_detection_eq
      split: sum.splits option.splits)

section \<open>Properties of the text detector\<close>

lemma and_then_Inr [simp]: "and_then (Inr v) f = f v"
  by (simp add: and_then_def)

lemma and_then_Inl [simp]: "and_then (Inl e) f = Inl e"
  by (simp add: and_then_def)

lemma pydiv_nonzero: "b \<noteq> 0 \<Longrightarrow> pydiv a b = Inr (a / b)"
  by (simp add: pydiv_def)

lemma extract_writing_features_returns:
  "\<exists>f. extract_writing_features text = Inr f \<and> word_count f = length (tokens text)"
  by (simp add: extract_writing_features_def Let_def pydiv_nonzero)

lemma analyze_repetition_eq:
  "analyze_repetition text =
     Inr (if length (tokens text) < 10 then 0.5
          else min 1 (real (length (bigrams (tokens text)) - len_set (bigrams (tokens text))
                            + (length (trigrams (tokens text)) - len_set (trigrams (tokens text))))
                      / real (length (tokens text)) * 10))"
  by (auto simp add: analyze_repetition_def Let_def pydiv_def)

lemma analyze_vocabulary_diversity_eq:
  "analyze_vocabulary_diversity text =
     Inr (if length (tokens text) < 5 then 0.5
          else 1 - real (len_set (tokens text)) / real (length (tokens text)))"
  by (auto simp add: analyze_vocabulary_diversity_def Let_def pydiv_def)

lemma analyze_sentence_structure_returns: "\<exists>v. analyze_sentence_structure text = Inr v"
proof -
  have "\<not> isl (analyze_sentence_structure text)"
    by (simp add: analyze_sentence_structure_def Let_def)
  then show ?thesis by (cases "analyze_sentence_structure text") simp_all
qed

lemma length_bigrams: "length (bigrams ws) = length ws - 1"
  by (simp add: bigrams_def)

lemma dom_count_bigram: "dom (count_bigram freq b) = insert b (dom freq)"
  by (simp add: count_bigram_def)

lemma dom_bigram_freq:
  "dom (fold (\<lambda>b freq. count_bigram freq b) bs freq) = dom freq \<union> set bs"
  by (induction bs arbitrary: freq) (auto simp add: dom_count_bigram)

lemma sum_log_probs_returns:
  "set bs \<subseteq> dom freq \<Longrightarrow> 0 < n \<Longrightarrow> \<exists>v. sum_log_probs freq n acc bs = Inr v"
proof (induction bs arbitrary: acc)
  case Nil
  show ?case by simp
next
  case (Cons b bs)
  from Cons.prems obtain c where c: "freq b = Some c" by auto
  have n: "real n \<noteq> 0" using Cons.prems by simp
  show ?case
  proof (cases "real c / real n > 0")
    case True
    then have "math_log (real c / real n) = Inr (ln (real c / real n))"
      by (simp add: math_log_def)
    with True c n Cons show ?thesis by (simp add: pydiv_nonzero)
  next
    case False
    with c n Cons show ?thesis by (simp add: pydiv_nonzero)
  qed
qed

lemma calculate_perplexity_returns: "\<exists>v. calculate_perplexity text = Inr v"
proof (cases "length (tokens text) < 10")
  case True
  then have "calculate_perplexity text = Inr 0.5"
    by (simp add: calculate_perplexity_def Let_def)
  then show ?thesis by blast
next
  case False
  let ?bgs = "bigrams (tokens text)"
  let ?freq = "fold (\<lambda>b freq. count_bigram freq b) ?bgs Map.empty"
  have n: "0 < length ?bgs" using False by (simp add: length_bigrams)
  have "set ?bgs \<subseteq> dom ?freq" by (simp add: dom_bigram_freq)
  from sum_log_probs_returns [OF this n] obtain v where
    v: "sum_log_probs ?freq (length ?bgs) 0 ?bgs = Inr v" by blast
  from n have "real (length ?bgs) \<noteq> 0" by simp
  with False v show ?thesis by (simp add: calculate_perplexity_def Let_def pydiv_nonzero)
qed

lemma calculate_confidence_dict:
  "calculate_confidence self text (FeaturesDict f) = Inr (confidence_steps (word_count f))"
  by (simp add: calculate_confidence_def features_get_word_count_def confidence_steps_def)

lemma heuristic_detection_eq:
  assumes "extract_writing_features text = Inr f" "analyze_repetition text = Inr rep"
    "analyze_vocabulary_diversity text = Inr vocab" "analyze_sentence_structure text = Inr struct"
    "calculate_perplexity text = Inr perp"
  shows "heuristic_detection self text =
     Inr \<lparr> ai_probability = min 1 (max 0 (0.3 * rep + 0.2 * vocab + 0.25 * struct + 0.25 * perp)),
           confidence = confidence_steps (word_count f),
           analysis = [(''method'', PStr ''heuristic''), (''features'', PFeatures f),
                       (''repetition_score'', PFloat rep), (''vocab_score'', PFloat vocab),
                       (''structure_score'', PFloat struct), (''perplexity'', PFloat perp)] \<rparr>"
  using assms
  by (simp add: heuristic_detection_def Let_def pydiv_def calculate_confidence_dict algebra_simps)

lemma heuristic_detection_returns:
  "\<exists>f rep vocab struct perp.
     extract_writing_features text = Inr f \<and> word_count f = length (tokens text)
     \<and> analyze_repetition text = Inr rep
     \<and> analyze_vocabulary_diversity text = Inr vocab
     \<and> analyze_sentence_structure text = Inr struct
     \<and> calculate_perplexity text = Inr perp
     \<and> heuristic_detection self text =
         Inr \<lparr> ai_probability = min 1 (max 0 (0.3 * rep + 0.2 * vocab + 0.25 * struct + 0.25 * perp)),
               confidence = confidence_steps (length (tokens text)),
               analysis = [(''method'', PStr ''heuristic''), (''features'', PFeatures f),
                           (''repetition_score'', PFloat rep), (''vocab_score'', PFloat vocab),
                           (''structure_score'', PFloat struct), (''perplexity'', PFloat perp)] \<rparr>"
proof -
  obtain f where f: "extract_writing_features text = Inr f" "word_count f = length (tokens text)"
    using extract_writing_features_returns by blast
  obtain struct where s: "analyze_sentence_structure text = Inr struct"
    using analyze_sentence_structure_returns by blast
  obtain perp where p: "calculate_perplexity text = Inr perp"
    using calculate_perplexity_returns by blast
  show ?thesis
    using heuristic_detection_eq [OF f(1) analyze_repetition_eq analyze_vocabulary_diversity_eq s p, of self]
      f s p analyze_repetition_eq [of "text"] analyze_vocabulary_diversity_eq [of "text"]
    by (metis (no_types, lifting))
qed

lemma ml_detection_returns: "\<exists>r. ml_detection self text = Inr r"
  using heuristic_detection_returns [of "text" self]
  by (auto simp add: ml_detection_def split: sum.splits)

lemma detect_returns: "\<exists>r. detect self text = Inr r"
  using heuristic_detection_returns [of "text" self] ml_detection_returns [of self "text"]
  by (auto simp add: detect_def)

lemma calculate_confidence_tensor:
  "calculate_confidence self text (Probabilities p) = Inl AttributeError"
  by (simp add: calculate_confidence_def features_get_word_count_def)

lemma ml_detection_falls_back: "ml_detection self text = heuristic_detection self text"
  by (cases "run_model self text")
     (simp_all add: ml_detection_def Let_def calculate_confidence_tensor)

lemma detect_heuristic: "detect self text = heuristic_detection self text"
  by (simp add: detect_def ml_detection_falls_back)

lemma tokens_hi: "tokens ''hi'' = [''hi'']" by code_simp
lemma tokens_ten: "length (tokens ''a b c d e f g h i j'') = 10" by code_simp

text \<open>
  Claim C2. For every text, \<^verbatim>\<open>TextAIDetector.detect\<close> returns a result, and for every
  byte sequence \<^verbatim>\<open>ImageAIDetector.detect\<close> returns a result: no exception leaves either
  call, whatever the libraries do. In particular this holds for non-empty inputs.
\<close>

theorem detect_never_raises:
  "(\<exists>r. detect self tx = Inr r) \<and> (\<exists>r. image_detect cv d = Inr r)"
  using detect_returns [of self tx] image_detect_returns [of cv d] by blast

theorem detect_never_raises_witness:
  "(\<exists>r. detect failing_model ''hi'' = Inr r) \<and> (\<exists>r. image_detect undecodable_cv [0] = Inr r)"
  using detect_never_raises [of failing_model "''hi''" undecodable_cv "[0]"] .

text \<open>
  Claim C3. In the heuristic tier the four analyzers return scores, and the probability of
  the result is the weighted sum 0.3 repetition + 0.2 vocabulary + 0.25 structure +
  0.25 perplexity clamped to the interval from 0 to 1; so it lies between 0 and 1.
\<close>

theorem heuristic_fusion:
  "\<exists>rep vocab struct perp r.
     analyze_repetition tx = Inr rep
     \<and> analyze_vocabulary_diversity tx = Inr vocab
     \<and> analyze_sentence_structure tx = Inr struct
     \<and> calculate_perplexity tx = Inr perp
     \<and> heuristic_detection self tx = Inr r
     \<and> ai_probability r = min 1 (max 0 (0.3 * rep + 0.2 * vocab + 0.25 * struct + 0.25 * perp))
     \<and> 0 \<le> ai_probability r \<and> ai_probability r \<le> 1"
proof -
  from heuristic_detection_returns [of tx self] obtain f rep vocab struct perp where
    h: "analyze_repetition tx = Inr rep" "analyze_vocabulary_diversity tx = Inr vocab"
      "analyze_sentence_structure tx = Inr struct" "calculate_perplexity tx = Inr perp"
      "heuristic_detection self tx =
         Inr \<lparr> ai_probability = min 1 (max 0 (0.3 * rep + 0.2 * vocab + 0.25 * struct + 0.25 * perp)),
               confidence = confidence_steps (length (tokens tx)),
               analysis = [(''method'', PStr ''heuristic''), (''features'', PFeatures f),
                           (''repetition_score'', PFloat rep), (''vocab_score'', PFloat vocab),
                           (''structure_score'', PFloat struct), (''perplexity'', PFloat perp)] \<rparr>"
    by blast
  show ?thesis
    apply (rule exI [of _ rep], rule exI [of _ vocab], rule exI [of _ struct], rule exI [of _ perp])
    apply (simp only: h)
    apply simp
    done
qed

theorem heuristic_fusion_witness:
  "\<exists>r. heuristic_detection heuristic_only ''hi'' = Inr r \<and> 0 \<le> ai_probability r \<and> ai_probability r \<le> 1"
  using heuristic_fusion [of "''hi''" heuristic_only] by blast

lemma confidence_steps_mono: "m \<le> n \<Longrightarrow> confidence_steps m \<le> confidence_steps n"
  by (simp add: confidence_steps_def)

text \<open>
  Claim C7. For every text and every detector object, whichever tier is attempted, the
  confidence that \<^verbatim>\<open>detect\<close> returns is the step function of the word count (below 10
  words 0.3, below 50 words 0.6, below 200 words 0.8, otherwise 0.9), and a text with
  no more words than another never has the greater confidence. The same holds for the
  result of either tier taken alone.
\<close>

theorem confidence_step_function:
  "calculate_confidence self tx (FeaturesDict f) = Inr (confidence_steps (word_count f))
   \<and> (\<exists>r1 r2. detect self t1 = Inr r1 \<and> detect self t2 = Inr r2
        \<and> confidence r1 = confidence_steps (length (tokens t1))
        \<and> confidence r2 = confidence_steps (length (tokens t2))
        \<and> (length (tokens t1) \<le> length (tokens t2) \<longrightarrow> confidence r1 \<le> confidence r2))
   \<and> (\<exists>h m. heuristic_detection self t1 = Inr h \<and> ml_detection self t1 = Inr m
        \<and> confidence h = confidence_steps (length (tokens t1))
        \<and> confidence m = confidence_steps (length (tokens t1)))"
proof -
  from heuristic_detection_returns [of t1 self] obtain r1 where
    r1: "heuristic_detection self t1 = Inr r1" "confidence r1 = confidence_steps (length (tokens t1))"
    by force
  from heuristic_detection_returns [of t2 self] obtain r2 where
    r2: "heuristic_detection self t2 = Inr r2" "confidence r2 = confidence_steps (length (tokens t2))"
    by force
  show ?thesis
    using r1 r2 confidence_steps_mono [of "length (tokens t1)" "length (tokens t2)"]
    by (simp add: calculate_confidence_dict detect_heuristic ml_detection_falls_back)
qed

theorem confidence_step_function_witness:
  "length (tokens ''hi'') \<le> length (tokens ''a b c d e f g h i j'')
   \<and> transformers_available loaded_model \<and> model_loaded loaded_model
   \<and> (\<exists>r1 r2. detect loaded_model ''hi'' = Inr r1
        \<and> detect loaded_model ''a b c d e f g h i j'' = Inr r2
        \<and> confidence r1 = 0.3 \<and> confidence r2 = 0.6 \<and> confidence r1 \<le> confidence r2)"
  using confidence_step_function [of loaded_model "''hi''" _ "''hi''" "''a b c d e f g h i j''"]
  by (auto simp add: tokens_hi tokens_ten confidence_steps_def loaded_model_def)

lemma sentences_hi: "nonblank_sentences ''hi'' = [''hi'']" by code_simp
lemma tokens_hi_dash: "tokens ''hi. -'' = [''hi'']" by code_simp
lemma sentences_hi_dash: "map strip (nonblank_sentences ''hi. -'') = [''hi'', ''-'']" by code_simp
lemma split_hi: "split_ws ''hi'' = [''hi'']" by code_simp
lemma split_dash: "split_ws ''-'' = [''-'']" by code_simp

text \<open>
  Claim C4, as stated for every single-word text, fails: the text \<open>hi. -\<close> has one word,
  and its two non-blank sentences of equal length give the structure analyzer the score
  1, not 0.5.
\<close>

theorem single_word_counterexample:
  "length (tokens ''hi. -'') = 1
   \<and> analyze_sentence_structure ''hi. -'' = Inr 1
   \<and> analyze_sentence_structure ''hi. -'' \<noteq> Inr 0.5"
  by (simp add: tokens_hi_dash analyze_sentence_structure_def sentences_hi_dash split_hi split_dash
        np_mean_def np_std_def)

text \<open>
  Claim C4, amended. For the text \<open>hi\<close>, and for every text with exactly one word and
  fewer than two non-blank sentences, the four analyzers of the heuristic tier return
  0.5, the fused probability is 0.5 and the confidence is 0.3.
\<close>

theorem single_word_text_neutral:
  assumes "length (tokens tx) = 1" and "length (nonblank_sentences tx) < 2"
  shows "analyze_repetition tx = Inr 0.5
       \<and> analyze_vocabulary_diversity tx = Inr 0.5
       \<and> analyze_sentence_structure tx = Inr 0.5
       \<and> calculate_perplexity tx = Inr 0.5
       \<and> (\<exists>r. heuristic_detection self tx = Inr r \<and> ai_probability r = 0.5 \<and> confidence r = 0.3)"
proof -
  have rep: "analyze_repetition tx = Inr 0.5"
    using assms(1) by (simp add: analyze_repetition_eq)
  have vocab: "analyze_vocabulary_diversity tx = Inr 0.5"
    using assms(1) by (simp add: analyze_vocabulary_diversity_eq)
  have struct: "analyze_sentence_structure tx = Inr 0.5"
    using assms(2) by (simp add: analyze_sentence_structure_def)
  have perp: "calculate_perplexity tx = Inr 0.5"
    using assms(1) by (simp add: calculate_perplexity_def)
  obtain f where f: "extract_writing_features tx = Inr f" "word_count f = length (tokens tx)"
    using extract_writing_features_returns by blast
  have "heuristic_detection self tx =
     Inr \<lparr> ai_probability = min 1 (max 0 (0.3 * 0.5 + 0.2 * 0.5 + 0.25 * 0.5 + 0.25 * 0.5)),
           confidence = confidence_steps (word_count f),
           analysis = [(''method'', PStr ''heuristic''), (''features'', PFeatures f),
                       (''repetition_score'', PFloat 0.5), (''vocab_score'', PFloat 0.5),
                       (''structure_score'', PFloat 0.5), (''perplexity'', PFloat 0.5)] \<rparr>"
    by (rule heuristic_detection_eq [OF f(1) rep vocab struct perp])
  then have "\<exists>r. heuristic_detection self tx = Inr r \<and> ai_probability r = 0.5 \<and> confidence r = 0.3"
    using f(2) assms(1) by (simp add: confidence_steps_def)
  with rep vocab struct perp show ?thesis by blast
qed

theorem single_word_text_neutral_witness:
  "length (tokens ''hi'') = 1 \<and> length (nonblank_sentences ''hi'') < 2
   \<and> analyze_repetition ''hi'' = Inr 0.5
   \<and> analyze_vocabulary_diversity ''hi'' = Inr 0.5
   \<and> analyze_sentence_structure ''hi'' = Inr 0.5
   \<and> calculate_perplexity ''hi'' = Inr 0.5
   \<and> (\<exists>r. heuristic_detection heuristic_only ''hi'' = Inr r
          \<and> ai_probability r = 0.5 \<and> confidence r = 0.3)"
  using single_word_text_neutral [of "''hi''" heuristic_only]
  by (simp add: tokens_hi sentences_hi)

text \<open>
  Claim C5: what the program does at the text \<open>hi\<close> with the library available and a
  loaded model that answers. The ML-assisted tier is entered, line 51 passes the
  probability tensor to \<^verbatim>\<open>_calculate_confidence\<close> where the feature dictionary is
  expected, the lookup of \<^verbatim>\<open>get\<close> raises AttributeError inside the \<^verbatim>\<open>try\<close> block, and
  the result is that of the heuristic tier: the method tag is \<open>heuristic\<close>, not
  \<open>ml_model\<close>.
\<close>

theorem ml_tier_payload_at_hi:
  "transformers_available loaded_model \<and> model_loaded loaded_model
   \<and> run_model loaded_model ''hi'' = Inr ()
   \<and> calculate_confidence loaded_model ''hi'' (Probabilities ()) = Inl AttributeError
   \<and> method_of (projr (detect loaded_model ''hi'')) = Some (PStr ''heuristic'')
   \<and> map fst (analysis (projr (detect loaded_model ''hi''))) =
       [''method'', ''features'', ''repetition_score'', ''vocab_score'', ''structure_score'',
        ''perplexity'']"
proof -
  from heuristic_detection_returns [of "''hi''" loaded_model] obtain r where
    r: "heuristic_detection loaded_model ''hi'' = Inr r"
      "method_of r = Some (PStr ''heuristic'')"
      "map fst (analysis r) =
         [''method'', ''features'', ''repetition_score'', ''vocab_score'', ''structure_score'',
          ''perplexity'']"
    by (auto simp add: method_of_def)
  then show ?thesis
    by (simp add: detect_heuristic calculate_confidence_tensor) (simp add: loaded_model_def)
qed

theorem ml_tier_payload_at_hi_witness:
  "method_of (projr (detect loaded_model ''hi'')) \<noteq> Some (PStr ''ml_model'')"
  using ml_tier_payload_at_hi by simp

section \<open>Repetition scores\<close>

lemma runs_all: "(\<And>c. c \<in> set cur \<Longrightarrow> P c) \<Longrightarrow> w \<in> set (runs P cur s) \<Longrightarrow> c \<in> set w \<Longrightarrow> P c"
proof (induction s arbitrary: cur)
  case Nil
  then show ?case by (auto split: if_splits)
next
  case (Cons x s)
  show ?case
  proof (cases "P x")
    case True
    with Cons.prems(2) have "w \<in> set (runs P (cur @ [x]) s)" by simp
    moreover have "\<And>c. c \<in> set (cur @ [x]) \<Longrightarrow> P c" using True Cons.prems(1) by auto
    ultimately show ?thesis using Cons.IH Cons.prems(3) by blast
  next
    case False
    with Cons.prems(2) have "w = cur \<or> w \<in> set (runs P [] s)" by (auto split: if_splits)
    then show ?thesis
    proof
      assume "w = cur"
      with Cons.prems show ?thesis by blast
    next
      assume "w \<in> set (runs P [] s)"
      then show ?thesis using Cons.IH [of "[]"] Cons.prems(3) by auto
    qed
  qed
qed

lemma space_not_word_char: "\<not> is_word_char (CHR '' '')"
  by (simp add: is_word_char_def code_point_def)

lemma tokens_no_space: "w \<in> set (tokens tx) \<Longrightarrow> CHR '' '' \<notin> set w"
  using runs_all [of "[]" is_word_char w "lower tx" "CHR '' ''"] space_not_word_char
  by (auto simp add: tokens_def findall_words_def)

lemma word_prefix_unique:
  "sp \<notin> set a \<Longrightarrow> sp \<notin> set a' \<Longrightarrow> a @ sp # r = a' @ sp # r' \<Longrightarrow> a = a' \<and> r = r'"
proof (induction a arbitrary: a')
  case Nil
  then show ?case by (cases a') auto
next
  case (Cons x a)
  then show ?case by (cases a') auto
qed

lemma take2_drop: "Suc i < length ws \<Longrightarrow> take 2 (drop i ws) = [ws ! i, ws ! Suc i]"
proof -
  assume a: "Suc i < length ws"
  then have "drop i ws = ws ! i # ws ! Suc i # drop (Suc (Suc i)) ws"
    by (simp add: Cons_nth_drop_Suc Suc_lessD)
  then show ?thesis by (simp add: numeral_2_eq_2)
qed

lemma take3_drop:
  "Suc (Suc i) < length ws \<Longrightarrow> take 3 (drop i ws) = [ws ! i, ws ! Suc i, ws ! Suc (Suc i)]"
proof -
  assume a: "Suc (Suc i) < length ws"
  then have "drop i ws = ws ! i # ws ! Suc i # ws ! Suc (Suc i) # drop (Suc (Suc (Suc i))) ws"
    by (simp add: Cons_nth_drop_Suc Suc_lessD)
  then show ?thesis by (simp add: numeral_3_eq_3)
qed

lemma bigrams_nth:
  assumes "Suc i < length ws"
  shows "bigrams ws ! i = ws ! i @ CHR '' '' # ws ! Suc i"
proof -
  from assms have "i < length ws - 1" by simp
  then have "bigrams ws ! i = join '' '' (slice ws i (i + 2))"
    by (simp add: bigrams_def)
  with assms show ?thesis by (simp add: slice_def take2_drop)
qed

lemma trigrams_nth:
  assumes "Suc (Suc i) < length ws"
  shows "trigrams ws ! i = ws ! i @ CHR '' '' # ws ! Suc i @ CHR '' '' # ws ! Suc (Suc i)"
proof -
  from assms have "i < length ws - 2" by simp
  then have "trigrams ws ! i = join '' '' (slice ws i (i + 3))"
    by (simp add: trigrams_def)
  with assms show ?thesis by (simp add: slice_def take3_drop)
qed

lemma length_trigrams: "length (trigrams ws) = length ws - 2"
  by (simp add: trigrams_def)

lemma distinct_trigrams:
  assumes d: "distinct (bigrams ws)" and nosp: "\<And>w. w \<in> set ws \<Longrightarrow> CHR '' '' \<notin> set w"
  shows "distinct (trigrams ws)"
proof -
  have "i = j" if i: "i < length (trigrams ws)" and j: "j < length (trigrams ws)"
    and eq: "trigrams ws ! i = trigrams ws ! j" for i j
  proof -
    from i j have li: "Suc (Suc i) < length ws" and lj: "Suc (Suc j) < length ws"
      by (simp_all add: length_trigrams)
    have e: "ws ! i @ CHR '' '' # (ws ! Suc i @ CHR '' '' # ws ! Suc (Suc i))
           = ws ! j @ CHR '' '' # (ws ! Suc j @ CHR '' '' # ws ! Suc (Suc j))"
      using eq li lj by (simp add: trigrams_nth)
    have ni: "CHR '' '' \<notin> set (ws ! i)" "CHR '' '' \<notin> set (ws ! Suc i)"
      using li nosp by (simp_all add: Suc_lessD)
    have nj: "CHR '' '' \<notin> set (ws ! j)" "CHR '' '' \<notin> set (ws ! Suc j)"
      using lj nosp by (simp_all add: Suc_lessD)
    from word_prefix_unique [OF ni(1) nj(1) e] have
      h1: "ws ! i = ws ! j" and
      r: "ws ! Suc i @ CHR '' '' # ws ! Suc (Suc i) = ws ! Suc j @ CHR '' '' # ws ! Suc (Suc j)"
      by simp_all
    from word_prefix_unique [OF ni(2) nj(2) r] have h2: "ws ! Suc i = ws ! Suc j" by simp
    have "bigrams ws ! i = bigrams ws ! j"
      using h1 h2 li lj by (simp add: bigrams_nth Suc_lessD)
    moreover have "i < length (bigrams ws)" "j < length (bigrams ws)"
      using li lj by (simp_all add: length_bigrams)
    ultimately show "i = j" using d by (simp add: nth_eq_iff_index_eq)
  qed
  then show ?thesis by (simp add: distinct_conv_nth) blast
qed

lemma remdups_count:
  "length (remdups xs) + count_list xs b \<le> Suc (length xs)"
proof (induction xs)
  case Nil
  show ?case by simp
next
  case (Cons x xs)
  have le: "length (remdups xs) \<le> length xs" by (rule length_remdups_leq)
  show ?case
  proof (cases "x \<in> set xs")
    case True
    with Cons show ?thesis by auto
  next
    case False
    show ?thesis
    proof (cases "x = b")
      case True
      with False have "count_list xs b = 0" by (simp add: count_list_0_iff)
      with True False le show ?thesis by simp
    next
      case nb: False
      with False Cons show ?thesis by simp
    qed
  qed
qed

text \<open>
  Claim C8. Of two texts of at least ten words each, where the first has fifty words and
  one bigram occurring twenty times and the second has no repeated bigram (hence no
  repeated trigram), the first has the strictly greater repetition score: the score of
  the first is 1 and the score of the second is 0.
\<close>

theorem repetition_ordering:
  assumes "length (tokens t1) = 50" and "20 \<le> count_list (bigrams (tokens t1)) b"
    and "10 \<le> length (tokens t2)" and "distinct (bigrams (tokens t2))"
  shows "\<exists>s1 s2. analyze_repetition t1 = Inr s1 \<and> analyze_repetition t2 = Inr s2
           \<and> s2 = 0 \<and> s1 = 1 \<and> s2 < s1 \<and> distinct (trigrams (tokens t2))"
proof -
  have dt: "distinct (trigrams (tokens t2))"
    using assms(4) tokens_no_space by (rule distinct_trigrams)
  have "len_set (bigrams (tokens t2)) = length (bigrams (tokens t2))"
    and "len_set (trigrams (tokens t2)) = length (trigrams (tokens t2))"
    using assms(4) dt by (simp_all add: len_set_def)
  then have s2: "analyze_repetition t2 = Inr 0"
    using assms(3) by (simp add: analyze_repetition_eq)
  have "length (bigrams (tokens t1)) = 49" using assms(1) by (simp add: length_bigrams)
  with remdups_count [of "bigrams (tokens t1)" b] assms(2)
  have "19 \<le> length (bigrams (tokens t1)) - len_set (bigrams (tokens t1))"
    by (simp add: len_set_def)
  then have "(1::real) \<le> real (length (bigrams (tokens t1)) - len_set (bigrams (tokens t1))
                 + (length (trigrams (tokens t1)) - len_set (trigrams (tokens t1)))) / 50 * 10"
    by simp
  then have s1: "analyze_repetition t1 = Inr 1"
    using assms(1) by (simp add: analyze_repetition_eq)
  from s1 s2 dt show ?thesis by simp
qed

lemma tokens_repetitive: "length (tokens repetitive_text) = 50"
  unfolding repetitive_text_def by code_simp
lemma count_repetitive: "count_list (bigrams (tokens repetitive_text)) ''a b'' = 20"
  unfolding repetitive_text_def by code_simp
lemma tokens_varied: "length (tokens varied_text) = 50"
  unfolding varied_text_def by code_simp
lemma distinct_varied: "distinct (bigrams (tokens varied_text))"
  unfolding varied_text_def by code_simp

theorem repetition_ordering_witness:
  "length (tokens repetitive_text) = 50
   \<and> 20 \<le> count_list (bigrams (tokens repetitive_text)) ''a b''
   \<and> 10 \<le> length (tokens varied_text)
   \<and> distinct (bigrams (tokens varied_text))
   \<and> analyze_repetition repetitive_text = Inr 1
   \<and> analyze_repetition varied_text = Inr 0"
  using repetition_ordering [of repetitive_text "''a b''" varied_text]
  by (simp add: tokens_repetitive count_repetitive tokens_varied distinct_varied)


end
